theory Spec2Isabelle
  imports Main
begin

section \<open>Python exceptions and the \<open>try ... except Exception\<close> boundary\<close>

text \<open>
  Every tool of \<^verbatim>\<open>server.py\<close> wraps its body in
  \<^verbatim>\<open>try: ... except Exception as e: return R(error=str(e))\<close>.
  A raised object is modelled by its class and by the text \<^verbatim>\<open>str(e)\<close> renders.
  The classes \<open>KeyboardInterrupt\<close>, \<open>SystemExit\<close>, \<open>GeneratorExit\<close> and
  \<open>asyncio.CancelledError\<close> derive from \<open>BaseException\<close> only: the handler
  \<^verbatim>\<open>except Exception\<close> does not match them, nor any other class outside
  \<^verbatim>\<open>Exception\<close> (\<open>OtherBaseException\<close>, with its name: \<^verbatim>\<open>BaseExceptionGroup\<close> or a
  class of a library). \<open>OtherException\<close>, with its name, is any further class that
  derives from \<^verbatim>\<open>Exception\<close>.
\<close>

datatype exn_class =
    ValueError
  | TypeError
  | FileExistsError
  | FileNotFoundError
  | NotADirectoryError
  | IsADirectoryError
  | UnboundLocalError
  | OtherException string
  | KeyboardInterrupt
  | SystemExit
  | GeneratorExit
  | CancelledError
  | OtherBaseException string

datatype exn = Exn (cls: exn_class) (str: string)

fun is_Exception_class :: "exn_class \<Rightarrow> bool" where
  "is_Exception_class KeyboardInterrupt = False"
| "is_Exception_class SystemExit = False"
| "is_Exception_class GeneratorExit = False"
| "is_Exception_class CancelledError = False"
| "is_Exception_class (OtherBaseException name) = False"
| "is_Exception_class _ = True"

definition is_Exception :: "exn \<Rightarrow> bool" where
  "is_Exception e = is_Exception_class (cls e)"

text \<open>
  A computation either raises (\<open>Inl\<close>) or returns (\<open>Inr\<close>).
  \<open>try_except body handler\<close> is
  \<^verbatim>\<open>try: return body except Exception as e: return handler(str(e))\<close>.
\<close>

definition try_except :: "exn + 'a \<Rightarrow> (string \<Rightarrow> 'a) \<Rightarrow> exn + 'a" where
  "try_except body handler =
     (case body of
        Inr v \<Rightarrow> Inr v
      | Inl e \<Rightarrow> if is_Exception e then Inr (handler (str e)) else Inl e)"

section \<open>Process state\<close>

text \<open>
  Modelled from the spec: the class \<^verbatim>\<open>HeyGenApiClient\<close>, declared in
  \<^verbatim>\<open>heygen_mcp/api_client.py\<close>, which is not among the sources at hand. A client
  holds the API key it was built with, and its initializer is side-effect-free.
  \<open>obj_id\<close> is the identity of the Python object, so that two clients built from one
  key are still two instances.
\<close>

record HeyGenApiClient =
  obj_id :: nat
  api_key :: string

text \<open>
  The file system as the tools see it: the set of directories and the contents of the
  regular files, both keyed by the resolved list of path components below the root.
\<close>

record filesystem =
  dirs :: "string list set"
  files :: "string list \<rightharpoonup> string"

text \<open>
  The state a tool call runs in: the module-level global \<^verbatim>\<open>api_client\<close>, the
  allocation counter giving fresh object identities, \<^verbatim>\<open>os.environ\<close>,
  \<^verbatim>\<open>tempfile.gettempdir()\<close>, the working directory and the file system.
\<close>

record state =
  api_client :: "HeyGenApiClient option"
  next_obj :: nat
  environ :: "string \<rightharpoonup> string"
  tempdir :: string
  cwd :: "string list"
  fs :: filesystem

definition getenv :: "state \<Rightarrow> string \<Rightarrow> string option" where
  "getenv st name = environ st name"

text \<open>
  \<^verbatim>\<open>get_api_client\<close>, lines 41-57. \<^verbatim>\<open>if not api_key\<close> holds for \<^verbatim>\<open>None\<close>
  (variable unset) and for the empty string.
\<close>

definition missing_key :: exn where
  "missing_key = Exn ValueError ''HEYGEN_API_KEY environment variable not set.''"

definition new_client :: "string \<Rightarrow> state \<Rightarrow> (exn + HeyGenApiClient) \<times> state" where
  "new_client k st =
     (let c = \<lparr>obj_id = next_obj st, api_key = k\<rparr>
      in (Inr c, st\<lparr>api_client := Some c, next_obj := Suc (next_obj st)\<rparr>))"

definition get_api_client :: "state \<Rightarrow> (exn + HeyGenApiClient) \<times> state" where
  "get_api_client st =
     (case api_client st of
        Some c \<Rightarrow> (Inr c, st)
      | None \<Rightarrow>
          (case getenv st ''HEYGEN_API_KEY'' of
             None \<Rightarrow> (Inl missing_key, st)
           | Some k \<Rightarrow> if k = [] then (Inl missing_key, st) else new_client k st))"

section \<open>Response and request types\<close>

text \<open>
  Modelled from the spec: the response and request classes, declared in the absent
  \<^verbatim>\<open>api_client.py\<close>. Every tool result type carries either a success payload or an
  error string, each field optional and \<^verbatim>\<open>None\<close> unless given. The fields are those
  \<^verbatim>\<open>server.py\<close> reads or passes by keyword; the payload fields of the four query
  results, which \<^verbatim>\<open>server.py\<close> never touches, are named after what the spec says
  they hold. \<^verbatim>\<open>Resource\<close> comes from the MCP library and wraps the local file path.
\<close>

record MCPResponse =
  error :: "string option"

record MCPGetCreditsResponse = MCPResponse +
  remaining_credits :: "int option"

record MCPVoicesResponse = MCPResponse +
  voices :: "string list option"

record MCPAvatarGroupResponse = MCPResponse +
  avatar_groups :: "string list option"

record MCPAvatarsInGroupResponse = MCPResponse +
  avatars :: "string list option"

record MCPVideoStatusResponse = MCPResponse +
  video_id :: "string option"
  status :: "string option"
  video_url :: "string option"

datatype Resource = Resource string

text \<open>
  Modelled from the spec: \<^verbatim>\<open>MCPVideoGenerateResponse\<close>, declared in the absent
  \<^verbatim>\<open>api_client.py\<close>. It is built in \<^verbatim>\<open>server.py\<close> with the keywords
  \<open>video_id\<close>, \<open>status\<close>, \<open>video_url\<close>, \<open>download_path\<close>, \<open>resource\<close> and \<open>error\<close>:
  the three it shares with the status response, and two of its own.
\<close>

record MCPVideoGenerateResponse = MCPVideoStatusResponse +
  download_path :: "string option"
  resource :: "Resource option"

record Character =
  avatar_id :: "string option"

record Voice =
  input_text :: string
  voice_id :: "string option"

record VideoInput =
  character :: Character
  voice :: Voice

record Dimension =
  width :: int
  height :: int

record VideoGenerateRequest =
  title :: string
  video_inputs :: "VideoInput list"
  dimension :: Dimension

text \<open>The results the \<^verbatim>\<open>except\<close> branches build: \<^verbatim>\<open>R(error=str(e))\<close>.\<close>

definition MCPGetCreditsResponse_error :: "string \<Rightarrow> MCPGetCreditsResponse" where
  "MCPGetCreditsResponse_error m = \<lparr>error = Some m, remaining_credits = None\<rparr>"

definition MCPVoicesResponse_error :: "string \<Rightarrow> MCPVoicesResponse" where
  "MCPVoicesResponse_error m = \<lparr>error = Some m, voices = None\<rparr>"

definition MCPAvatarGroupResponse_error :: "string \<Rightarrow> MCPAvatarGroupResponse" where
  "MCPAvatarGroupResponse_error m = \<lparr>error = Some m, avatar_groups = None\<rparr>"

definition MCPAvatarsInGroupResponse_error :: "string \<Rightarrow> MCPAvatarsInGroupResponse" where
  "MCPAvatarsInGroupResponse_error m = \<lparr>error = Some m, avatars = None\<rparr>"

definition MCPVideoStatusResponse_error :: "string \<Rightarrow> MCPVideoStatusResponse" where
  "MCPVideoStatusResponse_error m =
     \<lparr>error = Some m, video_id = None, status = None, video_url = None\<rparr>"

definition MCPVideoGenerateResponse_error :: "string \<Rightarrow> MCPVideoGenerateResponse" where
  "MCPVideoGenerateResponse_error m =
     \<lparr>error = Some m, video_id = None, status = None, video_url = None,
      download_path = None, resource = None\<rparr>"

section \<open>The collaborators of \<^verbatim>\<open>server.py\<close>\<close>

text \<open>
  The methods of the client and the constructor of the imported \<^verbatim>\<open>Resource\<close> class
  are not in the sources at hand, and what they return depends on the remote service.
  They are parameters of the model: each may return or raise. Only the binary download
  touches the file system, so it alone takes and returns one.
\<close>

record backend =
  get_remaining_credits :: "HeyGenApiClient \<Rightarrow> exn + MCPGetCreditsResponse"
  get_voices :: "HeyGenApiClient \<Rightarrow> exn + MCPVoicesResponse"
  list_avatar_groups_api :: "HeyGenApiClient \<Rightarrow> bool \<Rightarrow> exn + MCPAvatarGroupResponse"
  get_avatars_in_group :: "HeyGenApiClient \<Rightarrow> string \<Rightarrow> exn + MCPAvatarsInGroupResponse"
  generate_avatar_video ::
    "HeyGenApiClient \<Rightarrow> VideoGenerateRequest \<Rightarrow> exn + MCPVideoGenerateResponse"
  get_video_status :: "HeyGenApiClient \<Rightarrow> string \<Rightarrow> exn + MCPVideoStatusResponse"
  wait_for_video_completion ::
    "HeyGenApiClient \<Rightarrow> string \<Rightarrow> int \<Rightarrow> int \<Rightarrow> exn + MCPVideoStatusResponse"
  client_download_video ::
    "HeyGenApiClient \<Rightarrow> string \<Rightarrow> string \<Rightarrow> filesystem \<Rightarrow> (exn + string) \<times> filesystem"
  Resource_init :: "string \<Rightarrow> exn + Resource"

section \<open>The tools\<close>

text \<open>
  The seven tools of lines 69-183 share one shape: get the client, make one call on it,
  turn any \<^verbatim>\<open>Exception\<close> of either step into the error result. \<open>call_client\<close> is
  the body of the \<^verbatim>\<open>try\<close> block, \<open>call\<close> the method call on the client, and
  \<open>with_client\<close> the whole tool.
\<close>

definition call_client ::
  "(HeyGenApiClient \<Rightarrow> exn + 'a) \<Rightarrow> state \<Rightarrow> (exn + 'a) \<times> state" where
  "call_client call st =
     (case get_api_client st of
        (Inl e, st') \<Rightarrow> (Inl e, st')
      | (Inr client, st') \<Rightarrow> (call client, st'))"

definition with_client ::
  "(HeyGenApiClient \<Rightarrow> exn + 'a) \<Rightarrow> (string \<Rightarrow> 'a) \<Rightarrow> state \<Rightarrow> (exn + 'a) \<times> state" where
  "with_client call handler st =
     (case call_client call st of
        (r, st') \<Rightarrow> (try_except r handler, st'))"

definition account_credits :: "backend \<Rightarrow> state \<Rightarrow> (exn + MCPGetCreditsResponse) \<times> state" where
  "account_credits B st =
     with_client (\<lambda>client. get_remaining_credits B client) MCPGetCreditsResponse_error st"

definition list_available_voices :: "backend \<Rightarrow> state \<Rightarrow> (exn + MCPVoicesResponse) \<times> state" where
  "list_available_voices B st =
     with_client (\<lambda>client. get_voices B client) MCPVoicesResponse_error st"

definition list_avatar_groups ::
  "backend \<Rightarrow> bool \<Rightarrow> state \<Rightarrow> (exn + MCPAvatarGroupResponse) \<times> state" where
  "list_avatar_groups B include_public st =
     with_client (\<lambda>client. list_avatar_groups_api B client include_public)
       MCPAvatarGroupResponse_error st"

definition list_avatars_in_group ::
  "backend \<Rightarrow> string \<Rightarrow> state \<Rightarrow> (exn + MCPAvatarsInGroupResponse) \<times> state" where
  "list_avatars_in_group B group_id st =
     with_client (\<lambda>client. get_avatars_in_group B client group_id)
       MCPAvatarsInGroupResponse_error st"

text \<open>
  \<^verbatim>\<open>create_video\<close>, lines 129-149. The request is built before the client is fetched;
  building it is plain record construction here.
\<close>

definition create_video_request ::
  "string \<Rightarrow> string option \<Rightarrow> string option \<Rightarrow> string \<Rightarrow> VideoGenerateRequest" where
  "create_video_request text avatar vce ttl =
     \<lparr>title = ttl,
      video_inputs =
        [\<lparr>character = \<lparr>avatar_id = avatar\<rparr>,
          voice = \<lparr>input_text = text, voice_id = vce\<rparr>\<rparr>],
      dimension = \<lparr>width = 1280, height = 720\<rparr>\<rparr>"

definition create_video ::
  "backend \<Rightarrow> string \<Rightarrow> string option \<Rightarrow> string option \<Rightarrow> string \<Rightarrow> state
   \<Rightarrow> (exn + MCPVideoGenerateResponse) \<times> state" where
  "create_video B text avatar vce ttl st =
     (let request = create_video_request text avatar vce ttl
      in with_client (\<lambda>client. generate_avatar_video B client request)
           MCPVideoGenerateResponse_error st)"

definition check_video_status ::
  "backend \<Rightarrow> string \<Rightarrow> state \<Rightarrow> (exn + MCPVideoStatusResponse) \<times> state" where
  "check_video_status B vid st =
     with_client (\<lambda>client. get_video_status B client vid)
       MCPVideoStatusResponse_error st"

definition wait_for_video ::
  "backend \<Rightarrow> string \<Rightarrow> int \<Rightarrow> int \<Rightarrow> state \<Rightarrow> (exn + MCPVideoStatusResponse) \<times> state" where
  "wait_for_video B vid max_attempts delay_seconds st =
     with_client (\<lambda>client. wait_for_video_completion B client vid max_attempts delay_seconds)
       MCPVideoStatusResponse_error st"

section \<open>Paths, the clock and the file system\<close>

text \<open>\<^verbatim>\<open>s.split(c)\<close>: the pieces between the separators, empty pieces kept.\<close>

fun split_on :: "char \<Rightarrow> string \<Rightarrow> string list" where
  "split_on c [] = [[]]"
| "split_on c (x # xs) =
     (if x = c then [] # split_on c xs
      else (case split_on c xs of
              [] \<Rightarrow> [[x]]
            | w # ws \<Rightarrow> (x # w) # ws))"

fun join :: "string \<Rightarrow> string list \<Rightarrow> string" where
  "join sep [] = []"
| "join sep [w] = w"
| "join sep (w # v # ws) = w @ sep @ join sep (v # ws)"

text \<open>
  \<^verbatim>\<open>pathlib.Path\<close> on POSIX: a root (\<^verbatim>\<open>""\<close>, \<^verbatim>\<open>"/"\<close>, or \<^verbatim>\<open>"//"\<close> for exactly two
  leading slashes) and the list of names. Parsing drops empty pieces and \<^verbatim>\<open>"."\<close>,
  and keeps \<^verbatim>\<open>".."\<close>.
\<close>

record PosixPath =
  root :: string
  names :: "string list"

definition path_names :: "string \<Rightarrow> string list" where
  "path_names s = filter (\<lambda>w. w \<noteq> [] \<and> w \<noteq> ''.'') (split_on CHR ''/'' s)"

fun path_root :: "string \<Rightarrow> string" where
  "path_root (a # b # c # s) =
     (if a = CHR ''/'' then (if b = CHR ''/'' \<and> c \<noteq> CHR ''/'' then ''//'' else ''/'') else [])"
| "path_root [a, b] =
     (if a = CHR ''/'' then (if b = CHR ''/'' then ''//'' else ''/'') else [])"
| "path_root [a] = (if a = CHR ''/'' then ''/'' else [])"
| "path_root [] = []"

definition Path :: "string \<Rightarrow> PosixPath" where
  "Path s = \<lparr>root = path_root s, names = path_names s\<rparr>"

text \<open>\<^verbatim>\<open>p / s\<close>: an absolute right operand replaces the left one.\<close>

definition truediv :: "PosixPath \<Rightarrow> string \<Rightarrow> PosixPath" where
  "truediv p s =
     (if path_root s \<noteq> [] then Path s
      else \<lparr>root = root p, names = names p @ path_names s\<rparr>)"

definition str_Path :: "PosixPath \<Rightarrow> string" where
  "str_Path p =
     (if root p = [] \<and> names p = [] then ''.''
      else root p @ join ''/'' (names p))"

text \<open>
  \<^verbatim>\<open>os.path.abspath\<close>: relative strings start at the working directory, \<^verbatim>\<open>"."\<close> and
  empty pieces are dropped, and \<^verbatim>\<open>".."\<close> cancels the name before it (and stays at the
  root), all on the text of the path, without a look at the file system.
\<close>

fun walk :: "string list \<Rightarrow> string list \<Rightarrow> string list" where
  "walk stack [] = stack"
| "walk stack (w # ws) =
     (if w = [] \<or> w = ''.'' then walk stack ws
      else if w = ''..'' then walk (butlast stack) ws
      else walk (stack @ [w]) ws)"

definition os_resolve :: "string list \<Rightarrow> string \<Rightarrow> string list" where
  "os_resolve wd s =
     (if path_root s \<noteq> [] then walk [] (split_on CHR ''/'' s)
      else walk wd (split_on CHR ''/'' s))"

definition is_dir :: "filesystem \<Rightarrow> string list \<Rightarrow> bool" where
  "is_dir f p = (p = [] \<or> p \<in> dirs f)"

definition is_file :: "filesystem \<Rightarrow> string list \<Rightarrow> bool" where
  "is_file f p = (files f p \<noteq> None)"

text \<open>
  What the operating system makes of a path string in a system call: it goes from
  directory to directory, so each name and each \<^verbatim>\<open>".."\<close> is looked up in a directory
  that must exist; only the last name may be new. Symbolic links are not modelled.
\<close>

fun lookup :: "filesystem \<Rightarrow> string list \<Rightarrow> string list \<Rightarrow> exn_class + string list" where
  "lookup f cur [] = Inr cur"
| "lookup f cur (w # ws) =
     (if w = [] \<or> w = ''.'' then lookup f cur ws
      else if \<not> is_dir f cur
        then Inl (if is_file f cur then NotADirectoryError else FileNotFoundError)
      else if w = ''..'' then lookup f (butlast cur) ws
      else lookup f (cur @ [w]) ws)"

definition os_lookup :: "filesystem \<Rightarrow> string list \<Rightarrow> string \<Rightarrow> exn_class + string list" where
  "os_lookup f wd s =
     (if path_root s \<noteq> [] then lookup f [] (split_on CHR ''/'' s)
      else lookup f wd (split_on CHR ''/'' s))"

text \<open>
  \<^verbatim>\<open>repr\<close> of a string, as the message of an \<^verbatim>\<open>OSError\<close> prints the file name:
  between apostrophes, or between double quotes when the string has an apostrophe and no
  double quote; the quote in use and the backslash are escaped, and so are the control
  characters. Characters beyond ASCII are printed as they are.
\<close>

definition hex_digit :: "nat \<Rightarrow> char" where
  "hex_digit n = ''0123456789abcdef'' ! (n mod 16)"

definition escape_char :: "char \<Rightarrow> char \<Rightarrow> string" where
  "escape_char q ch =
     (if ch = q \<or> ch = CHR 0x5C then [CHR 0x5C, ch]
      else if ch = CHR 0x0A then [CHR 0x5C, CHR ''n'']
      else if ch = CHR 0x0D then [CHR 0x5C, CHR ''r'']
      else if ch = CHR 0x09 then [CHR 0x5C, CHR ''t'']
      else if (of_char ch :: nat) < 32 \<or> (of_char ch :: nat) = 127
        then [CHR 0x5C, CHR ''x'', hex_digit (of_char ch div 16), hex_digit (of_char ch)]
      else [ch])"

definition repr :: "string \<Rightarrow> string" where
  "repr s =
     (let q = (if CHR 0x27 \<in> set s \<and> CHR 0x22 \<notin> set s then CHR 0x22 else CHR 0x27)
      in q # concat (map (escape_char q) s) @ [q])"

definition os_error :: "exn_class \<Rightarrow> string \<Rightarrow> string \<Rightarrow> exn" where
  "os_error c what shown = Exn c (what @ '': '' @ repr shown)"

fun strerror :: "exn_class \<Rightarrow> string" where
  "strerror NotADirectoryError = ''[Errno 20] Not a directory''"
| "strerror FileExistsError = ''[Errno 17] File exists''"
| "strerror IsADirectoryError = ''[Errno 21] Is a directory''"
| "strerror c = ''[Errno 2] No such file or directory''"

text \<open>
  \<^verbatim>\<open>Path.mkdir(exist_ok=True)\<close>, \<^verbatim>\<open>parents\<close> left at \<^verbatim>\<open>False\<close>: an existing directory
  is accepted, an existing regular file is not, and a missing parent is not created.
  \<open>mkdir_at\<close> works on the place the path leads to, \<open>Path_mkdir\<close> on the path string,
  which is also what the message prints.
\<close>

definition mkdir_at :: "string list \<Rightarrow> string \<Rightarrow> filesystem \<Rightarrow> exn + filesystem" where
  "mkdir_at p shown f =
     (if is_dir f p then Inr f
      else if is_file f p then Inl (os_error FileExistsError (strerror FileExistsError) shown)
      else if is_dir f (butlast p) then Inr (f\<lparr>dirs := insert p (dirs f)\<rparr>)
      else if is_file f (butlast p)
        then Inl (os_error NotADirectoryError (strerror NotADirectoryError) shown)
      else Inl (os_error FileNotFoundError (strerror FileNotFoundError) shown))"

definition Path_mkdir :: "string list \<Rightarrow> string \<Rightarrow> filesystem \<Rightarrow> exn + filesystem" where
  "Path_mkdir wd shown f =
     (case os_lookup f wd shown of
        Inl c \<Rightarrow> Inl (os_error c (strerror c) shown)
      | Inr p \<Rightarrow> mkdir_at p shown f)"

text \<open>
  \<^verbatim>\<open>datetime.now()\<close> is an input of the model, and
  \<^verbatim>\<open>strftime("%Y%m%d_%H%M%S")\<close> prints its fields in fixed width: four digits
  for the year, two for each other field. \<open>valid_datetime\<close> holds for the values a
  \<^verbatim>\<open>datetime\<close> can have whose year has four digits (how \<^verbatim>\<open>%Y\<close> prints an earlier
  year depends on the platform, and the clock does not give one).
\<close>

record datetime =
  year :: nat
  month :: nat
  day :: nat
  hour :: nat
  minute :: nat
  second :: nat


definition digit :: "nat \<Rightarrow> char" where
  "digit n = ''0123456789'' ! (n mod 10)"

definition pad2 :: "nat \<Rightarrow> string" where
  "pad2 n = [digit (n div 10), digit n]"

definition pad4 :: "nat \<Rightarrow> string" where
  "pad4 n = [digit (n div 1000), digit (n div 100), digit (n div 10), digit n]"

definition strftime :: "datetime \<Rightarrow> string" where
  "strftime d =
     pad4 (year d) @ pad2 (month d) @ pad2 (day d) @ ''_'' @
     pad2 (hour d) @ pad2 (minute d) @ pad2 (second d)"

section \<open>\<^verbatim>\<open>download_video\<close>\<close>

text \<open>
  Lines 206-214: the path the download goes to. A path the caller gave is used as it
  is. Otherwise the directory \<^verbatim>\<open>heygen_videos\<close> under the temp directory is made, and the
  file is named after the time and the video id.
\<close>

definition default_file_name :: "datetime \<Rightarrow> string \<Rightarrow> string" where
  "default_file_name now vid = strftime now @ ''_'' @ vid @ ''.mp4''"

definition default_download_path :: "string \<Rightarrow> datetime \<Rightarrow> string \<Rightarrow> PosixPath" where
  "default_download_path tmp now vid =
     truediv (truediv (Path tmp) ''heygen_videos'') (default_file_name now vid)"

definition default_destination ::
  "datetime \<Rightarrow> string \<Rightarrow> state \<Rightarrow> (exn + string) \<times> state" where
  "default_destination now vid st =
     (let temp_dir = truediv (Path (tempdir st)) ''heygen_videos''
      in case Path_mkdir (cwd st) (str_Path temp_dir) (fs st) of
           Inl e \<Rightarrow> (Inl e, st)
         | Inr f \<Rightarrow>
             (Inr (str_Path (default_download_path (tempdir st) now vid)), st\<lparr>fs := f\<rparr>))"

text \<open>\<^verbatim>\<open>if not download_path\<close> holds for \<^verbatim>\<open>None\<close> and for the empty string.\<close>

definition destination ::
  "datetime \<Rightarrow> string \<Rightarrow> string option \<Rightarrow> state \<Rightarrow> (exn + string) \<times> state" where
  "destination now vid path st =
     (case path of
        None \<Rightarrow> default_destination now vid st
      | Some p \<Rightarrow> if p = [] then default_destination now vid st else (Inr p, st))"

definition no_video_url :: string where
  "no_video_url = ''Video URL not available. Video may still be processing or failed.''"

text \<open>
  Lines 217-229: the download itself, the resource object, the result. An exception keeps
  what the steps before it did to the file system.
\<close>

definition fetch ::
  "backend \<Rightarrow> HeyGenApiClient \<Rightarrow> string \<Rightarrow> string \<Rightarrow> string \<Rightarrow> state
   \<Rightarrow> (exn + MCPVideoGenerateResponse) \<times> state" where
  "fetch B client vid url path st =
     (case client_download_video B client url path (fs st) of
        (Inl e, f) \<Rightarrow> (Inl e, st\<lparr>fs := f\<rparr>)
      | (Inr file_path, f) \<Rightarrow>
          (case Resource_init B file_path of
             Inl e \<Rightarrow> (Inl e, st\<lparr>fs := f\<rparr>)
           | Inr res \<Rightarrow>
               (Inr \<lparr>error = None, video_id = Some vid, status = Some ''downloaded'',
                     video_url = Some url, download_path = Some file_path,
                     resource = Some res\<rparr>,
                st\<lparr>fs := f\<rparr>)))"

text \<open>The body of the \<^verbatim>\<open>try\<close> block, lines 196-229.\<close>

definition download_video_body ::
  "backend \<Rightarrow> datetime \<Rightarrow> string \<Rightarrow> string option \<Rightarrow> state
   \<Rightarrow> (exn + MCPVideoGenerateResponse) \<times> state" where
  "download_video_body B now vid path st =
     (case get_api_client st of
        (Inl e, st1) \<Rightarrow> (Inl e, st1)
      | (Inr client, st1) \<Rightarrow>
          (case get_video_status B client vid of
             Inl e \<Rightarrow> (Inl e, st1)
           | Inr s \<Rightarrow>
               (case video_url s of
                  None \<Rightarrow> (Inr (MCPVideoGenerateResponse_error no_video_url), st1)
                | Some url \<Rightarrow>
                    if url = [] then (Inr (MCPVideoGenerateResponse_error no_video_url), st1)
                    else
                      (case destination now vid path st1 of
                         (Inl e, st2) \<Rightarrow> (Inl e, st2)
                       | (Inr p, st2) \<Rightarrow> fetch B client vid url p st2))))"

text \<open>\<^verbatim>\<open>download_video\<close>, lines 193-231.\<close>

definition download_video ::
  "backend \<Rightarrow> datetime \<Rightarrow> string \<Rightarrow> string option \<Rightarrow> state
   \<Rightarrow> (exn + MCPVideoGenerateResponse) \<times> state" where
  "download_video B now vid path st =
     (case download_video_body B now vid path st of
        (r, st') \<Rightarrow> (try_except r MCPVideoGenerateResponse_error, st'))"

section \<open>The client methods the spec describes\<close>

text \<open>
  Modelled from the spec: \<^verbatim>\<open>HeyGenApiClient.wait_for_video_completion\<close>, whose code is
  in the absent \<^verbatim>\<open>api_client.py\<close>. The spec: it "repeatedly polls at a fixed interval
  up to a maximum attempt count until status is terminal (completed or failed) or
  attempts are exhausted" and "returns the last observed status either way".
  \<open>answers i\<close> is what the remote service replies to the \<open>i\<close>-th status request for the
  video. \<open>poll_until answers i k\<close> has issued \<open>i\<close> polls and may issue \<open>k\<close> more; it
  returns the result together with the number of polls issued. The pauses between polls
  take time and nothing else, and are left out. The spec does not say what a call
  with fewer than one attempt gives: no status has been observed then, and the model
  raises.
\<close>

definition terminal :: "MCPVideoStatusResponse \<Rightarrow> bool" where
  "terminal s = (status s = Some ''completed'' \<or> status s = Some ''failed'')"

definition nothing_observed :: exn where
  "nothing_observed = Exn UnboundLocalError ''no status observed''"

fun poll_until ::
  "(nat \<Rightarrow> exn + MCPVideoStatusResponse) \<Rightarrow> nat \<Rightarrow> nat
   \<Rightarrow> (exn + MCPVideoStatusResponse) \<times> nat" where
  "poll_until answers i 0 = (Inl nothing_observed, i)"
| "poll_until answers i (Suc k) =
     (case answers i of
        Inl e \<Rightarrow> (Inl e, Suc i)
      | Inr s \<Rightarrow> if terminal s \<or> k = 0 then (Inr s, Suc i)
                 else poll_until answers (Suc i) k)"

definition spec_wait_for_video_completion ::
  "(string \<Rightarrow> nat \<Rightarrow> exn + MCPVideoStatusResponse)
   \<Rightarrow> HeyGenApiClient \<Rightarrow> string \<Rightarrow> int \<Rightarrow> int \<Rightarrow> exn + MCPVideoStatusResponse" where
  "spec_wait_for_video_completion remote client vid max_attempts delay_seconds =
     fst (poll_until (remote vid) 0 (nat max_attempts))"

definition polls_issued ::
  "(string \<Rightarrow> nat \<Rightarrow> exn + MCPVideoStatusResponse) \<Rightarrow> string \<Rightarrow> int \<Rightarrow> nat" where
  "polls_issued remote vid max_attempts = snd (poll_until (remote vid) 0 (nat max_attempts))"

text \<open>
  Modelled from the spec: \<^verbatim>\<open>HeyGenApiClient.download_video\<close>, whose code is in the absent
  \<^verbatim>\<open>api_client.py\<close>. The spec: it "streams response bytes to a caller-specified local
  file path, creating parent directories as needed, and returns the resolved absolute
  path"; a transport failure and an "I/O failure writing the downloaded file" surface as
  errors. The controller "ensures the destination directory exists, streams the remote
  file to that path": the directories come first. \<open>http_get\<close> is the reply of the remote
  file server; writing fails where the destination is a directory.
\<close>

fun ancestors :: "string list \<Rightarrow> string list list" where
  "ancestors [] = []"
| "ancestors (w # ws) = [w] # map ((#) w) (ancestors ws)"

definition makedirs :: "string list \<Rightarrow> filesystem \<Rightarrow> filesystem" where
  "makedirs p f = f\<lparr>dirs := dirs f \<union> set (ancestors p)\<rparr>"

definition absolute :: "string list \<Rightarrow> string" where
  "absolute p = CHR ''/'' # join ''/'' p"

definition spec_download_video ::
  "(string \<Rightarrow> exn + string) \<Rightarrow> string list
   \<Rightarrow> HeyGenApiClient \<Rightarrow> string \<Rightarrow> string \<Rightarrow> filesystem \<Rightarrow> (exn + string) \<times> filesystem" where
  "spec_download_video http_get wd client url path f =
     (let p = os_resolve wd path;
          f1 = makedirs (butlast p) f
      in case http_get url of
           Inl e \<Rightarrow> (Inl e, f1)
         | Inr body \<Rightarrow>
             if is_dir f1 p
             then (Inl (os_error IsADirectoryError ''[Errno 21] Is a directory'' path), f1)
             else (Inr (absolute p), f1\<lparr>files := (files f1)(p \<mapsto> body)\<rparr>))"

section \<open>The file name pattern of the spec\<close>



section \<open>Example inputs\<close>

text \<open>
  A server whose key is not configured, one whose key is configured and whose client has
  not been built yet, and one whose client is cached.
\<close>

definition disk0 :: filesystem where
  "disk0 = \<lparr>dirs = {[''tmp''], [''srv'']}, files = Map.empty\<rparr>"

definition unset_state :: state where
  "unset_state =
     \<lparr>api_client = None, next_obj = 0, environ = Map.empty, tempdir = ''/tmp'',
      cwd = [''srv''], fs = disk0\<rparr>"

definition fresh_state :: state where
  "fresh_state = unset_state\<lparr>environ := [''HEYGEN_API_KEY'' \<mapsto> ''secret'']\<rparr>"

definition client0 :: HeyGenApiClient where
  "client0 = \<lparr>obj_id = 0, api_key = ''secret''\<rparr>"

definition ready_state :: state where
  "ready_state = fresh_state\<lparr>api_client := Some client0, next_obj := 1\<rparr>"


definition moment :: datetime where
  "moment = \<lparr>year = 2024, month = 1, day = 2, hour = 3, minute = 4, second = 5\<rparr>"

text \<open>Replies of the remote service, and two collaborators built from them.\<close>

definition processing :: MCPVideoStatusResponse where
  "processing =
     \<lparr>error = None, video_id = Some ''abc123'', status = Some ''processing'',
      video_url = None\<rparr>"

definition completed :: MCPVideoStatusResponse where
  "completed =
     \<lparr>error = None, video_id = Some ''abc123'', status = Some ''completed'',
      video_url = Some ''https://x/y.mp4''\<rparr>"

definition created :: MCPVideoGenerateResponse where
  "created =
     \<lparr>error = None, video_id = Some ''abc123'', status = None, video_url = None,
      download_path = None, resource = None\<rparr>"

definition raising :: "exn \<Rightarrow> backend" where
  "raising e =
     \<lparr>get_remaining_credits = (\<lambda>client. Inl e),
      get_voices = (\<lambda>client. Inl e),
      list_avatar_groups_api = (\<lambda>client include_public. Inl e),
      get_avatars_in_group = (\<lambda>client group_id. Inl e),
      generate_avatar_video = (\<lambda>client request. Inl e),
      get_video_status = (\<lambda>client vid. Inl e),
      wait_for_video_completion = (\<lambda>client vid max_attempts delay_seconds. Inl e),
      client_download_video = (\<lambda>client url path f. (Inl e, f)),
      Resource_init = (\<lambda>file_path. Inl e)\<rparr>"

definition mock :: "MCPVideoStatusResponse \<Rightarrow> (string \<Rightarrow> exn + Resource) \<Rightarrow> backend" where
  "mock reply res =
     \<lparr>get_remaining_credits = (\<lambda>client. Inr \<lparr>error = None, remaining_credits = Some 100\<rparr>),
      get_voices = (\<lambda>client. Inr \<lparr>error = None, voices = Some []\<rparr>),
      list_avatar_groups_api =
        (\<lambda>client include_public. Inr \<lparr>error = None, avatar_groups = Some []\<rparr>),
      get_avatars_in_group = (\<lambda>client group_id. Inr \<lparr>error = None, avatars = Some []\<rparr>),
      generate_avatar_video = (\<lambda>client request. Inr created),
      get_video_status = (\<lambda>client vid. Inr reply),
      wait_for_video_completion = spec_wait_for_video_completion (\<lambda>vid i. Inr reply),
      client_download_video = spec_download_video (\<lambda>url. Inr ''mp4 bytes'') [''srv''],
      Resource_init = res\<rparr>"

definition server_error :: exn where
  "server_error = Exn (OtherException ''HTTPStatusError'') ''Server error 500''"

definition cancelled :: exn where
  "cancelled = Exn CancelledError []"

definition bad_resource :: exn where
  "bad_resource = Exn TypeError ''Resource() takes no positional arguments''"

section \<open>The exception boundary\<close>

lemma try_except_Exception:
  "is_Exception e \<Longrightarrow> try_except (Inl e) h = Inr (h (str e))"
  by (simp add: try_except_def)

lemma try_except_Inr: "try_except (Inr v) h = Inr v"
  by (simp add: try_except_def)

lemma try_except_no_Exception:
  "try_except r h = Inl e \<Longrightarrow> \<not> is_Exception e"
  by (auto simp: try_except_def split: sum.splits if_splits)

lemma with_client_catches:
  "is_Exception e \<Longrightarrow> fst (call_client call st) = Inl e \<Longrightarrow>
   fst (with_client call h st) = Inr (h (str e))"
  by (cases "call_client call st") (simp add: with_client_def try_except_Exception)

lemma with_client_no_Exception:
  "fst (with_client call h st) = Inl e \<Longrightarrow> \<not> is_Exception e"
  by (cases "call_client call st") (auto simp: with_client_def dest: try_except_no_Exception)

lemma download_video_catches:
  "is_Exception e \<Longrightarrow> fst (download_video_body B now vid path st) = Inl e \<Longrightarrow>
   fst (download_video B now vid path st) = Inr (MCPVideoGenerateResponse_error (str e))"
  by (cases "download_video_body B now vid path st")
    (simp add: download_video_def try_except_Exception)

lemma download_video_no_Exception:
  "fst (download_video B now vid path st) = Inl e \<Longrightarrow> \<not> is_Exception e"
  by (cases "download_video_body B now vid path st")
    (auto simp: download_video_def dest: try_except_no_Exception)

section \<open>The shared client\<close>

lemma get_api_client_fs: "get_api_client st = (r, st1) \<Longrightarrow> fs st1 = fs st"
  by (auto simp: get_api_client_def new_client_def Let_def split: option.splits if_splits)

lemma get_api_client_cwd: "get_api_client st = (r, st1) \<Longrightarrow> cwd st1 = cwd st"
  by (auto simp: get_api_client_def new_client_def Let_def split: option.splits if_splits)

lemma get_api_client_cached:
  "api_client st = Some c \<Longrightarrow> get_api_client st = (Inr c, st)"
  by (simp add: get_api_client_def)

lemma get_api_client_caches:
  "get_api_client st = (Inr c, st1) \<Longrightarrow> api_client st1 = Some c"
  by (auto simp: get_api_client_def new_client_def Let_def split: option.splits if_splits)

lemma get_api_client_missing:
  "api_client st = None \<Longrightarrow> getenv st ''HEYGEN_API_KEY'' = None \<Longrightarrow>
   get_api_client st = (Inl missing_key, st)"
  by (simp add: get_api_client_def)

lemma is_Exception_missing_key: "is_Exception missing_key"
  by (simp add: missing_key_def is_Exception_def)

lemma get_api_client_fresh:
  "get_api_client fresh_state = (Inr client0, ready_state)"
  by (simp add: get_api_client_def getenv_def fresh_state_def unset_state_def new_client_def
      client0_def ready_state_def Let_def)

lemma get_api_client_ready:
  "get_api_client ready_state = (Inr client0, ready_state)"
  by (simp add: get_api_client_def ready_state_def)

text \<open>Runs on the example inputs.\<close>

lemma destination_default_run:
  "destination moment ''abc123'' None ready_state =
     (Inr ''/tmp/heygen_videos/20240102_030405_abc123.mp4'',
      ready_state\<lparr>fs := disk0\<lparr>dirs := insert [''tmp'', ''heygen_videos''] (dirs disk0)\<rparr>\<rparr>)"
  by (simp add: destination_def default_destination_def default_download_path_def
      default_file_name_def strftime_def pad2_def pad4_def digit_def moment_def
      truediv_def Path_def path_names_def str_Path_def os_lookup_def Path_mkdir_def mkdir_at_def
      is_dir_def is_file_def ready_state_def fresh_state_def unset_state_def disk0_def Let_def)

lemma destination_given_run:
  "destination moment ''abc123'' (Some ''/tmp/v.mp4'') ready_state = (Inr ''/tmp/v.mp4'', ready_state)"
  by (simp add: destination_def)

lemma fs_ready_state: "fs ready_state = disk0"
  by (simp add: ready_state_def fresh_state_def unset_state_def)

lemma cwd_ready_state: "cwd ready_state = [''srv'']"
  by (simp add: ready_state_def fresh_state_def unset_state_def)

lemma download_given_run:
  "client_download_video (mock reply res) client0 ''https://x/y.mp4'' ''/tmp/v.mp4'' disk0 =
     (Inr ''/tmp/v.mp4'', disk0\<lparr>files := [[''tmp'', ''v.mp4''] \<mapsto> ''mp4 bytes'']\<rparr>)"
  by (auto simp: mock_def spec_download_video_def os_resolve_def makedirs_def is_dir_def
      absolute_def disk0_def Let_def)

lemma download_default_run:
  "client_download_video (mock reply res) client0 ''https://x/y.mp4''
     ''/tmp/heygen_videos/20240102_030405_abc123.mp4''
     (disk0\<lparr>dirs := insert [''tmp'', ''heygen_videos''] (dirs disk0)\<rparr>) =
     (Inr ''/tmp/heygen_videos/20240102_030405_abc123.mp4'',
      disk0\<lparr>dirs := insert [''tmp'', ''heygen_videos''] (dirs disk0),
            files := [[''tmp'', ''heygen_videos'', ''20240102_030405_abc123.mp4'']
                       \<mapsto> ''mp4 bytes'']\<rparr>)"
  by (auto simp: mock_def spec_download_video_def os_resolve_def makedirs_def is_dir_def
      absolute_def disk0_def Let_def)

text \<open>
  Claim C7. Once \<^verbatim>\<open>get_api_client\<close> has built a client, a later call returns that
  same client and leaves the state as it is, whatever has happened to the rest of the
  state in between: the environment is not read again, and no second client is
  allocated. Nothing in \<^verbatim>\<open>server.py\<close> assigns the global but \<^verbatim>\<open>get_api_client\<close>
  itself, so the later state \<open>st2\<close> is any state whose global still holds what the first
  call stored.
\<close>

theorem client_is_created_once:
  assumes "get_api_client st = (Inr c, st1)"
      and "api_client st2 = api_client st1"
  shows "get_api_client st2 = (Inr c, st2)"
proof -
  from assms(1) have "api_client st1 = Some c"
    by (rule get_api_client_caches)
  with assms(2) have "api_client st2 = Some c"
    by simp
  then show ?thesis
    by (rule get_api_client_cached)
qed

text \<open>
  The first call builds the client from the key \<^verbatim>\<open>secret\<close>; then the variable is set
  to another key; the second call still returns the first client.
\<close>

theorem client_is_created_once_witness:
  "get_api_client fresh_state = (Inr client0, ready_state) \<and>
   api_client (ready_state\<lparr>environ := [''HEYGEN_API_KEY'' \<mapsto> ''other'']\<rparr>)
     = api_client ready_state \<and>
   get_api_client (ready_state\<lparr>environ := [''HEYGEN_API_KEY'' \<mapsto> ''other'']\<rparr>)
     = (Inr client0, ready_state\<lparr>environ := [''HEYGEN_API_KEY'' \<mapsto> ''other'']\<rparr>)"
proof -
  have h1: "get_api_client fresh_state = (Inr client0, ready_state)"
    by (rule get_api_client_fresh)
  have h2: "api_client (ready_state\<lparr>environ := [''HEYGEN_API_KEY'' \<mapsto> ''other'']\<rparr>)
              = api_client ready_state"
    by simp
  show ?thesis
    using h1 h2 client_is_created_once [OF h1 h2] by simp
qed

section \<open>Faults at the dispatch boundary\<close>

text \<open>
  Claim C1, as amended. Take any of the eight tools and any raised object \<open>e\<close> that is an
  instance of \<^verbatim>\<open>Exception\<close>. If the body of the tool's \<^verbatim>\<open>try\<close> block raises \<open>e\<close>
  (while getting the client, in the call on the client, or, for \<^verbatim>\<open>download_video\<close>, in
  any later step), the tool returns its own result type with the error field set to
  \<^verbatim>\<open>str(e)\<close> and every other field empty; and no tool ever lets an instance of
  \<^verbatim>\<open>Exception\<close> out. Objects outside \<^verbatim>\<open>Exception\<close> are what the amendment leaves
  out: the handler is \<^verbatim>\<open>except Exception\<close>, and they pass it.
\<close>

theorem tools_catch_every_Exception:
  assumes "is_Exception e"
  shows
   "(fst (call_client (\<lambda>client. get_remaining_credits B client) st) = Inl e \<longrightarrow>
       fst (account_credits B st) = Inr (MCPGetCreditsResponse_error (str e))) \<and>
    (fst (call_client (\<lambda>client. get_voices B client) st) = Inl e \<longrightarrow>
       fst (list_available_voices B st) = Inr (MCPVoicesResponse_error (str e))) \<and>
    (fst (call_client (\<lambda>client. list_avatar_groups_api B client include_public) st) = Inl e \<longrightarrow>
       fst (list_avatar_groups B include_public st) = Inr (MCPAvatarGroupResponse_error (str e))) \<and>
    (fst (call_client (\<lambda>client. get_avatars_in_group B client group_id) st) = Inl e \<longrightarrow>
       fst (list_avatars_in_group B group_id st) = Inr (MCPAvatarsInGroupResponse_error (str e))) \<and>
    (fst (call_client (\<lambda>client. generate_avatar_video B client
            (create_video_request text avatar vce ttl)) st) = Inl e \<longrightarrow>
       fst (create_video B text avatar vce ttl st) = Inr (MCPVideoGenerateResponse_error (str e))) \<and>
    (fst (call_client (\<lambda>client. get_video_status B client vid) st) = Inl e \<longrightarrow>
       fst (check_video_status B vid st) = Inr (MCPVideoStatusResponse_error (str e))) \<and>
    (fst (call_client (\<lambda>client. wait_for_video_completion B client vid max_attempts delay_seconds) st)
         = Inl e \<longrightarrow>
       fst (wait_for_video B vid max_attempts delay_seconds st)
         = Inr (MCPVideoStatusResponse_error (str e))) \<and>
    (fst (download_video_body B now vid path st) = Inl e \<longrightarrow>
       fst (download_video B now vid path st) = Inr (MCPVideoGenerateResponse_error (str e))) \<and>
    fst (account_credits B st) \<noteq> Inl e \<and>
    fst (list_available_voices B st) \<noteq> Inl e \<and>
    fst (list_avatar_groups B include_public st) \<noteq> Inl e \<and>
    fst (list_avatars_in_group B group_id st) \<noteq> Inl e \<and>
    fst (create_video B text avatar vce ttl st) \<noteq> Inl e \<and>
    fst (check_video_status B vid st) \<noteq> Inl e \<and>
    fst (wait_for_video B vid max_attempts delay_seconds st) \<noteq> Inl e \<and>
    fst (download_video B now vid path st) \<noteq> Inl e"
  using assms
  unfolding account_credits_def list_available_voices_def list_avatar_groups_def
    list_avatars_in_group_def create_video_def check_video_status_def wait_for_video_def Let_def
  by (auto simp: with_client_catches download_video_catches
           dest: with_client_no_Exception download_video_no_Exception)

text \<open>
  The remote service answers every request with a server error, and the collaborators
  raise it: each tool hands it back as its error result.
\<close>

theorem tools_catch_every_Exception_witness:
  "is_Exception server_error \<and>
   fst (call_client (\<lambda>client. get_remaining_credits (raising server_error) client) ready_state)
     = Inl server_error \<and>
   fst (call_client (\<lambda>client. get_video_status (raising server_error) client ''abc123'')
          ready_state) = Inl server_error \<and>
   fst (download_video_body (raising server_error) moment ''abc123'' None ready_state)
     = Inl server_error \<and>
   fst (account_credits (raising server_error) ready_state)
     = Inr \<lparr>error = Some ''Server error 500'', remaining_credits = None\<rparr> \<and>
   fst (check_video_status (raising server_error) ''abc123'' ready_state)
     = Inr \<lparr>error = Some ''Server error 500'', video_id = None, status = None,
            video_url = None\<rparr> \<and>
   fst (download_video (raising server_error) moment ''abc123'' None ready_state)
     = Inr \<lparr>error = Some ''Server error 500'', video_id = None, status = None,
            video_url = None, download_path = None, resource = None\<rparr>"
proof -
  have h: "is_Exception server_error"
    by (simp add: server_error_def is_Exception_def)
  have m: "str server_error = ''Server error 500''"
    by (simp add: server_error_def)
  have b1: "fst (call_client (\<lambda>client. get_remaining_credits (raising server_error) client)
                  ready_state) = Inl server_error"
    by (simp add: call_client_def get_api_client_ready raising_def)
  have b2: "fst (call_client (\<lambda>client. get_video_status (raising server_error) client ''abc123'')
                  ready_state) = Inl server_error"
    by (simp add: call_client_def get_api_client_ready raising_def)
  have b3: "fst (download_video_body (raising server_error) moment ''abc123'' None ready_state)
              = Inl server_error"
    by (simp add: download_video_body_def get_api_client_ready raising_def)
  from tools_catch_every_Exception [OF h, where B = "raising server_error"
      and st = ready_state and vid = "''abc123''" and now = moment and path = None]
  have "fst (account_credits (raising server_error) ready_state)
          = Inr (MCPGetCreditsResponse_error (str server_error))"
    and "fst (check_video_status (raising server_error) ''abc123'' ready_state)
          = Inr (MCPVideoStatusResponse_error (str server_error))"
    and "fst (download_video (raising server_error) moment ''abc123'' None ready_state)
          = Inr (MCPVideoGenerateResponse_error (str server_error))"
    using b1 b2 b3 by blast+
  with h b1 b2 b3 show ?thesis
    by (simp add: m MCPGetCreditsResponse_error_def MCPVideoStatusResponse_error_def
        MCPVideoGenerateResponse_error_def)
qed

text \<open>
  The claim as it was stated fails for a raised object outside \<^verbatim>\<open>Exception\<close>: when the
  task is cancelled while the status request is awaited, the \<^verbatim>\<open>CancelledError\<close> leaves
  \<^verbatim>\<open>check_video_status\<close> as it came, and no result is returned.
\<close>

theorem cancellation_passes_the_boundary:
  "fst (call_client (\<lambda>client. get_video_status (raising cancelled) client ''abc123'')
          ready_state) = Inl cancelled \<and>
   fst (check_video_status (raising cancelled) ''abc123'' ready_state) = Inl cancelled"
  by (simp add: check_video_status_def with_client_def call_client_def get_api_client_ready
      raising_def try_except_def is_Exception_def cancelled_def)

text \<open>
  Claim C9. With no client built yet and \<^verbatim>\<open>HEYGEN_API_KEY\<close> unset, every tool returns
  its own result type whose error field is the message of the \<^verbatim>\<open>ValueError\<close> raised in
  \<^verbatim>\<open>get_api_client\<close>, and leaves the state as it was.
\<close>

theorem missing_key_is_a_tool_error:
  assumes "api_client st = None" and "getenv st ''HEYGEN_API_KEY'' = None"
  shows
   "account_credits B st =
      (Inr (MCPGetCreditsResponse_error ''HEYGEN_API_KEY environment variable not set.''), st) \<and>
    list_available_voices B st =
      (Inr (MCPVoicesResponse_error ''HEYGEN_API_KEY environment variable not set.''), st) \<and>
    list_avatar_groups B include_public st =
      (Inr (MCPAvatarGroupResponse_error ''HEYGEN_API_KEY environment variable not set.''), st) \<and>
    list_avatars_in_group B group_id st =
      (Inr (MCPAvatarsInGroupResponse_error ''HEYGEN_API_KEY environment variable not set.''), st) \<and>
    create_video B text avatar vce ttl st =
      (Inr (MCPVideoGenerateResponse_error ''HEYGEN_API_KEY environment variable not set.''), st) \<and>
    check_video_status B vid st =
      (Inr (MCPVideoStatusResponse_error ''HEYGEN_API_KEY environment variable not set.''), st) \<and>
    wait_for_video B vid max_attempts delay_seconds st =
      (Inr (MCPVideoStatusResponse_error ''HEYGEN_API_KEY environment variable not set.''), st) \<and>
    download_video B now vid path st =
      (Inr (MCPVideoGenerateResponse_error ''HEYGEN_API_KEY environment variable not set.''), st)"
proof -
  have m: "str missing_key = ''HEYGEN_API_KEY environment variable not set.''"
    by (simp add: missing_key_def)
  have w: "with_client call h st = (Inr (h (str missing_key)), st)" for call :: "HeyGenApiClient \<Rightarrow> exn + 'a" and h
    using assms
    by (simp add: with_client_def call_client_def get_api_client_missing
        try_except_Exception is_Exception_missing_key)
  have d: "download_video B now vid path st =
             (Inr (MCPVideoGenerateResponse_error (str missing_key)), st)"
    using assms
    by (simp add: download_video_def download_video_body_def get_api_client_missing
        try_except_Exception is_Exception_missing_key)
  show ?thesis
    unfolding account_credits_def list_available_voices_def list_avatar_groups_def
      list_avatars_in_group_def create_video_def check_video_status_def wait_for_video_def Let_def
    by (simp only: w d m)
qed

theorem missing_key_is_a_tool_error_witness:
  "api_client unset_state = None \<and> getenv unset_state ''HEYGEN_API_KEY'' = None \<and>
   account_credits (mock completed (\<lambda>p. Inr (Resource p))) unset_state =
     (Inr \<lparr>error = Some ''HEYGEN_API_KEY environment variable not set.'',
           remaining_credits = None\<rparr>, unset_state) \<and>
   download_video (mock completed (\<lambda>p. Inr (Resource p))) moment ''abc123'' None unset_state =
     (Inr \<lparr>error = Some ''HEYGEN_API_KEY environment variable not set.'', video_id = None,
           status = None, video_url = None, download_path = None, resource = None\<rparr>,
      unset_state)"
proof -
  have h1: "api_client unset_state = None"
    by (simp add: unset_state_def)
  have h2: "getenv unset_state ''HEYGEN_API_KEY'' = None"
    by (simp add: getenv_def unset_state_def)
  show ?thesis
    using h1 h2 missing_key_is_a_tool_error [OF h1 h2,
        where B = "mock completed (\<lambda>p. Inr (Resource p))" and now = moment
          and vid = "''abc123''" and path = None]
    by (simp add: MCPGetCreditsResponse_error_def MCPVideoGenerateResponse_error_def)
qed

section \<open>Creating a video\<close>

text \<open>
  Claim C6. \<^verbatim>\<open>create_video(text)\<close>, with the avatar id and the voice id left at
  \<^verbatim>\<open>None\<close> and the title at its default \<^verbatim>\<open>""\<close>, submits exactly one request through the
  client: the one with the empty title, a single video input (a character carrying the
  avatar id, a voice carrying the text and the voice id) and the dimensions 1280 by 720.
  What the client returns for that request is what the tool returns; a response with the
  id \<^verbatim>\<open>abc123\<close> and no error comes back with that id and no error.
\<close>

theorem create_video_default_request:
  assumes "get_api_client st = (Inr c, st1)"
  shows
   "create_video B text None None [] st =
      (try_except
         (generate_avatar_video B c
            \<lparr>title = [],
             video_inputs =
               [\<lparr>character = \<lparr>avatar_id = None\<rparr>,
                 voice = \<lparr>input_text = text, voice_id = None\<rparr>\<rparr>],
             dimension = \<lparr>width = 1280, height = 720\<rparr>\<rparr>)
         MCPVideoGenerateResponse_error, st1) \<and>
    length (video_inputs (create_video_request text None None [])) = 1 \<and>
    (\<forall>r. generate_avatar_video B c (create_video_request text None None []) = Inr r \<and>
         video_id r = Some ''abc123'' \<and> error r = None \<longrightarrow>
         create_video B text None None [] st = (Inr r, st1))"
  using assms
  by (simp add: create_video_def create_video_request_def with_client_def call_client_def
      try_except_Inr)

theorem create_video_default_request_witness:
  "get_api_client fresh_state = (Inr client0, ready_state) \<and>
   generate_avatar_video (mock processing (\<lambda>p. Inr (Resource p))) client0
     (create_video_request ''Hello world'' None None []) = Inr created \<and>
   video_id created = Some ''abc123'' \<and> error created = None \<and>
   create_video (mock processing (\<lambda>p. Inr (Resource p))) ''Hello world'' None None []
     fresh_state = (Inr created, ready_state)"
proof -
  have h: "get_api_client fresh_state = (Inr client0, ready_state)"
    by (rule get_api_client_fresh)
  have g: "generate_avatar_video (mock processing (\<lambda>p. Inr (Resource p))) client0
             (create_video_request ''Hello world'' None None []) = Inr created"
    by (simp add: mock_def)
  have v: "video_id created = Some ''abc123''" and e: "error created = None"
    by (simp_all add: created_def)
  from create_video_default_request [OF h, of "mock processing (\<lambda>p. Inr (Resource p))"
      "''Hello world''"] g v e
  have "create_video (mock processing (\<lambda>p. Inr (Resource p))) ''Hello world'' None None []
          fresh_state = (Inr created, ready_state)"
    by blast
  with h g v e show ?thesis
    by simp
qed

section \<open>Downloading a video\<close>

text \<open>
  Claim C3. When the status that \<^verbatim>\<open>download_video\<close> re-queries carries no video URL
  (\<^verbatim>\<open>None\<close> or the empty string), the tool returns the result whose only populated
  field is the error message of line 203, and the file system is what it was before the
  call: no directory is made and no file is written. The download step is not reached:
  the outcome is the same whatever the client's download method would do.
\<close>

theorem download_without_url_writes_nothing:
  assumes "get_api_client st = (Inr c, st1)"
      and "get_video_status B c vid = Inr s"
      and "video_url s = None \<or> video_url s = Some []"
  shows "download_video (B\<lparr>client_download_video := d\<rparr>) now vid path st =
           (Inr \<lparr>error = Some ''Video URL not available. Video may still be processing or failed.'',
                 video_id = None, status = None, video_url = None, download_path = None,
                 resource = None\<rparr>, st1) \<and>
         fs st1 = fs st"
proof -
  from assms
  have "download_video_body (B\<lparr>client_download_video := d\<rparr>) now vid path st =
          (Inr (MCPVideoGenerateResponse_error no_video_url), st1)"
    by (auto simp: download_video_body_def)
  then show ?thesis
    using assms(1)
    by (simp add: download_video_def try_except_Inr get_api_client_fs
        MCPVideoGenerateResponse_error_def no_video_url_def)
qed

theorem download_without_url_writes_nothing_witness:
  "get_api_client ready_state = (Inr client0, ready_state) \<and>
   get_video_status (mock processing (\<lambda>p. Inr (Resource p))) client0 ''abc123'' = Inr processing \<and>
   (video_url processing = None \<or> video_url processing = Some []) \<and>
   download_video (mock processing (\<lambda>p. Inr (Resource p))) moment ''abc123'' None ready_state =
     (Inr \<lparr>error = Some ''Video URL not available. Video may still be processing or failed.'',
           video_id = None, status = None, video_url = None, download_path = None,
           resource = None\<rparr>, ready_state) \<and>
   fs ready_state = disk0"
proof -
  let ?B = "mock processing (\<lambda>p. Inr (Resource p))"
  have h1: "get_api_client ready_state = (Inr client0, ready_state)"
    by (rule get_api_client_ready)
  have h2: "get_video_status ?B client0 ''abc123'' = Inr processing"
    by (simp add: mock_def)
  have h3: "video_url processing = None \<or> video_url processing = Some []"
    by (simp add: processing_def)
  have same: "?B\<lparr>client_download_video := client_download_video ?B\<rparr> = ?B"
    by simp
  have d: "fs ready_state = disk0"
    by (simp add: ready_state_def fresh_state_def unset_state_def)
  from download_without_url_writes_nothing [OF h1 h2 h3,
      of "client_download_video ?B" moment None]
  show ?thesis
    using h1 h2 h3 d by (simp only: same)
qed

text \<open>
  Claim C5, as amended. When the re-queried status carries a video URL, the destination
  is settled, the client's download returns the local file path and the resource object
  is built, \<^verbatim>\<open>download_video\<close> returns a result with no error that carries that file
  path, the video id it was called with, the fixed status \<^verbatim>\<open>downloaded\<close>, the URL taken
  from the status query, and the resource; the file system is as the download left it.
  The status the query reported is not passed on: the result says \<^verbatim>\<open>downloaded\<close>
  whatever it was.
\<close>

theorem download_video_success_result:
  assumes "get_api_client st = (Inr c, st1)"
      and "get_video_status B c vid = Inr s"
      and "video_url s = Some url" and "url \<noteq> []"
      and "destination now vid path st1 = (Inr p, st2)"
      and "client_download_video B c url p (fs st2) = (Inr file_path, f)"
      and "Resource_init B file_path = Inr res"
  shows "download_video B now vid path st =
           (Inr \<lparr>error = None, video_id = Some vid, status = Some ''downloaded'',
                 video_url = Some url, download_path = Some file_path,
                 resource = Some res\<rparr>,
            st2\<lparr>fs := f\<rparr>)"
  using assms
  by (simp add: download_video_def download_video_body_def fetch_def try_except_Inr)

text \<open>
  The video is completed and the caller asks for \<^verbatim>\<open>/tmp/v.mp4\<close>: the result carries
  that path, the id, the status \<^verbatim>\<open>downloaded\<close>, the URL and the resource.
\<close>

theorem download_video_success_result_witness:
  "get_api_client ready_state = (Inr client0, ready_state) \<and>
   get_video_status (mock completed (\<lambda>p. Inr (Resource p))) client0 ''abc123'' = Inr completed \<and>
   video_url completed = Some ''https://x/y.mp4'' \<and>
   destination moment ''abc123'' (Some ''/tmp/v.mp4'') ready_state
     = (Inr ''/tmp/v.mp4'', ready_state) \<and>
   download_video (mock completed (\<lambda>p. Inr (Resource p))) moment ''abc123''
       (Some ''/tmp/v.mp4'') ready_state =
     (Inr \<lparr>error = None, video_id = Some ''abc123'', status = Some ''downloaded'',
           video_url = Some ''https://x/y.mp4'', download_path = Some ''/tmp/v.mp4'',
           resource = Some (Resource ''/tmp/v.mp4'')\<rparr>,
      ready_state\<lparr>fs := disk0\<lparr>files := [[''tmp'', ''v.mp4''] \<mapsto> ''mp4 bytes'']\<rparr>\<rparr>)"
proof -
  let ?B = "mock completed (\<lambda>p. Inr (Resource p))"
  have h1: "get_api_client ready_state = (Inr client0, ready_state)"
    by (rule get_api_client_ready)
  have h2: "get_video_status ?B client0 ''abc123'' = Inr completed"
    by (simp add: mock_def)
  have h3: "video_url completed = Some ''https://x/y.mp4''"
    by (simp add: completed_def)
  have h4: "''https://x/y.mp4'' \<noteq> []"
    by simp
  have h5: "destination moment ''abc123'' (Some ''/tmp/v.mp4'') ready_state
              = (Inr ''/tmp/v.mp4'', ready_state)"
    by (rule destination_given_run)
  have h6: "client_download_video ?B client0 ''https://x/y.mp4'' ''/tmp/v.mp4'' (fs ready_state) =
              (Inr ''/tmp/v.mp4'', disk0\<lparr>files := [[''tmp'', ''v.mp4''] \<mapsto> ''mp4 bytes'']\<rparr>)"
    by (simp only: fs_ready_state download_given_run)
  have h7: "Resource_init ?B ''/tmp/v.mp4'' = Inr (Resource ''/tmp/v.mp4'')"
    by (simp add: mock_def)
  from download_video_success_result [OF h1 h2 h3 h4 h5 h6 h7] h1 h2 h3 h5
  show ?thesis
    by simp
qed

text \<open>
  The claim as it was stated has the result carry the status of the job. The remote
  service reports the job as \<^verbatim>\<open>completed\<close>; the result of the download says
  \<^verbatim>\<open>downloaded\<close>.
\<close>

theorem download_status_is_not_the_job_status:
  "get_video_status (mock completed (\<lambda>p. Inr (Resource p))) client0 ''abc123'' = Inr completed \<and>
   status completed = Some ''completed'' \<and>
   fst (download_video (mock completed (\<lambda>p. Inr (Resource p))) moment ''abc123''
          (Some ''/tmp/v.mp4'') ready_state) =
     Inr \<lparr>error = None, video_id = Some ''abc123'', status = Some ''downloaded'',
          video_url = Some ''https://x/y.mp4'', download_path = Some ''/tmp/v.mp4'',
          resource = Some (Resource ''/tmp/v.mp4'')\<rparr> \<and>
   Some ''downloaded'' \<noteq> status completed"
proof -
  let ?B = "mock completed (\<lambda>p. Inr (Resource p))"
  have g: "get_video_status ?B client0 ''abc123'' = Inr completed"
    by (simp add: mock_def)
  have u: "video_url completed = Some ''https://x/y.mp4''"
    and c: "status completed = Some ''completed''"
    by (simp_all add: completed_def)
  have r: "Resource_init ?B ''/tmp/v.mp4'' = Inr (Resource ''/tmp/v.mp4'')"
    by (simp add: mock_def)
  have "download_video_body ?B moment ''abc123'' (Some ''/tmp/v.mp4'') ready_state =
          (Inr \<lparr>error = None, video_id = Some ''abc123'', status = Some ''downloaded'',
                video_url = Some ''https://x/y.mp4'', download_path = Some ''/tmp/v.mp4'',
                resource = Some (Resource ''/tmp/v.mp4'')\<rparr>,
           ready_state\<lparr>fs := disk0\<lparr>files := [[''tmp'', ''v.mp4''] \<mapsto> ''mp4 bytes'']\<rparr>\<rparr>)"
    by (simp add: download_video_body_def get_api_client_ready g u destination_given_run
        fetch_def fs_ready_state download_given_run r)
  then have "fst (download_video ?B moment ''abc123'' (Some ''/tmp/v.mp4'') ready_state) =
     Inr \<lparr>error = None, video_id = Some ''abc123'', status = Some ''downloaded'',
          video_url = Some ''https://x/y.mp4'', download_path = Some ''/tmp/v.mp4'',
          resource = Some (Resource ''/tmp/v.mp4'')\<rparr>"
    by (simp add: download_video_def try_except_Inr)
  with g c show ?thesis
    by simp
qed

text \<open>
  Claim C10. An error result of \<^verbatim>\<open>download_video\<close> does not mean that nothing was
  written. If the client's download has put a file where there was none, and building the
  resource object then raises, the tool returns a result with the error string alone,
  and the file is still there in the state the call leaves behind.
\<close>

theorem download_video_error_after_write:
  assumes "get_api_client st = (Inr c, st1)"
      and "get_video_status B c vid = Inr s"
      and "video_url s = Some url" and "url \<noteq> []"
      and "destination now vid path st1 = (Inr p, st2)"
      and "client_download_video B c url p (fs st2) = (Inr file_path, f)"
      and "files (fs st) q = None" and "files f q = Some content"
      and "Resource_init B file_path = Inl e" and "is_Exception e"
  shows "download_video B now vid path st =
           (Inr \<lparr>error = Some (str e), video_id = None, status = None, video_url = None,
                 download_path = None, resource = None\<rparr>,
            st2\<lparr>fs := f\<rparr>) \<and>
         files (fs (snd (download_video B now vid path st))) q = Some content"
  using assms
  by (simp add: download_video_def download_video_body_def fetch_def try_except_Exception
      MCPVideoGenerateResponse_error_def)

text \<open>
  The video is downloaded to the default destination, and the resource object cannot be
  built: the result holds the error alone, and the file is on disk.
\<close>

theorem download_video_error_after_write_witness:
  "get_api_client ready_state = (Inr client0, ready_state) \<and>
   get_video_status (mock completed (\<lambda>p. Inl bad_resource)) client0 ''abc123'' = Inr completed \<and>
   files (fs ready_state) [''tmp'', ''heygen_videos'', ''20240102_030405_abc123.mp4''] = None \<and>
   Resource_init (mock completed (\<lambda>p. Inl bad_resource))
     ''/tmp/heygen_videos/20240102_030405_abc123.mp4'' = Inl bad_resource \<and>
   is_Exception bad_resource \<and>
   fst (download_video (mock completed (\<lambda>p. Inl bad_resource)) moment ''abc123'' None ready_state) =
     Inr \<lparr>error = Some ''Resource() takes no positional arguments'', video_id = None,
          status = None, video_url = None, download_path = None, resource = None\<rparr> \<and>
   files (fs (snd (download_video (mock completed (\<lambda>p. Inl bad_resource)) moment ''abc123''
                     None ready_state)))
     [''tmp'', ''heygen_videos'', ''20240102_030405_abc123.mp4''] = Some ''mp4 bytes''"
proof -
  let ?B = "mock completed (\<lambda>p. Inl bad_resource)"
  let ?q = "[''tmp'', ''heygen_videos'', ''20240102_030405_abc123.mp4'']"
  let ?f = "disk0\<lparr>dirs := insert [''tmp'', ''heygen_videos''] (dirs disk0),
                  files := [?q \<mapsto> ''mp4 bytes'']\<rparr>"
  let ?st2 = "ready_state\<lparr>fs := disk0\<lparr>dirs := insert [''tmp'', ''heygen_videos''] (dirs disk0)\<rparr>\<rparr>"
  have h1: "get_api_client ready_state = (Inr client0, ready_state)"
    by (rule get_api_client_ready)
  have h2: "get_video_status ?B client0 ''abc123'' = Inr completed"
    by (simp add: mock_def)
  have h3: "video_url completed = Some ''https://x/y.mp4''"
    by (simp add: completed_def)
  have h4: "''https://x/y.mp4'' \<noteq> []"
    by simp
  have h5: "destination moment ''abc123'' None ready_state
              = (Inr ''/tmp/heygen_videos/20240102_030405_abc123.mp4'', ?st2)"
    by (rule destination_default_run)
  have h6: "client_download_video ?B client0 ''https://x/y.mp4''
              ''/tmp/heygen_videos/20240102_030405_abc123.mp4'' (fs ?st2) =
              (Inr ''/tmp/heygen_videos/20240102_030405_abc123.mp4'', ?f)"
    using download_default_run [of completed "\<lambda>p. Inl bad_resource"] by simp
  have h7: "files (fs ready_state) ?q = None"
    by (simp add: fs_ready_state disk0_def)
  have h8: "files ?f ?q = Some ''mp4 bytes''"
    by simp
  have h9: "Resource_init ?B ''/tmp/heygen_videos/20240102_030405_abc123.mp4'' = Inl bad_resource"
    by (simp add: mock_def)
  have h10: "is_Exception bad_resource"
    by (simp add: bad_resource_def is_Exception_def)
  have m: "str bad_resource = ''Resource() takes no positional arguments''"
    by (simp add: bad_resource_def)
  from download_video_error_after_write [OF h1 h2 h3 h4 h5 h6 h7 h8 h9 h10] h1 h2 h7 h9 h10 m
  show ?thesis
    by simp
qed

section \<open>Waiting for a video\<close>

lemma poll_until_upper: "snd (poll_until answers i k) \<le> i + k"
  by (induction answers i k rule: poll_until.induct) (auto split: sum.splits)

lemma poll_until_lower: "0 < k \<Longrightarrow> i < snd (poll_until answers i k)"
  by (induction answers i k rule: poll_until.induct) (auto split: sum.splits)

lemma poll_until_last:
  "0 < k \<Longrightarrow> fst (poll_until answers i k) = answers (snd (poll_until answers i k) - 1)"
  by (induction answers i k rule: poll_until.induct) (auto split: sum.splits)

lemma poll_until_earlier:
  "i \<le> j \<Longrightarrow> j < snd (poll_until answers i k) - 1 \<Longrightarrow>
   \<exists>s. answers j = Inr s \<and> \<not> terminal s"
proof (induction answers i k rule: poll_until.induct)
  case (1 answers i)
  then show ?case by simp
next
  case (2 answers i k)
  show ?case
  proof (cases "answers i")
    case (Inl e)
    with 2 show ?thesis by simp
  next
    case (Inr s)
    show ?thesis
    proof (cases "terminal s \<or> k = 0")
      case True
      with 2 Inr show ?thesis by simp
    next
      case False
      show ?thesis
      proof (cases "j = i")
        case True
        with Inr False show ?thesis by auto
      next
        case ne: False
        with 2 Inr False show ?thesis by auto
      qed
    qed
  qed
qed

lemma poll_until_exhausts:
  "\<forall>j. i \<le> j \<and> j < i + k \<longrightarrow> (\<exists>s. answers j = Inr s \<and> \<not> terminal s) \<Longrightarrow>
   snd (poll_until answers i k) = i + k"
proof (induction answers i k rule: poll_until.induct)
  case (1 answers i)
  then show ?case by simp
next
  case (2 answers i k)
  from 2(2) obtain s where s: "answers i = Inr s" "\<not> terminal s"
    by (metis le_refl less_add_Suc2 add_Suc_right less_add_same_cancel1 zero_less_Suc)
  show ?case
  proof (cases "k = 0")
    case True
    with s show ?thesis by simp
  next
    case False
    have "snd (poll_until answers (Suc i) k) = Suc i + k"
      using 2(1)[OF s(1)] s(2) False 2(2) by auto
    with s False show ?thesis by simp
  qed
qed

text \<open>
  Claim C2. Let the client's \<^verbatim>\<open>wait_for_video_completion\<close> be the polling loop the spec
  describes, and let \<open>max_attempts\<close> be at least 1. Then \<^verbatim>\<open>wait_for_video\<close> returns
  after at least one and at most \<open>max_attempts\<close> status polls. What it returns is the
  reply to the last poll it issued, passed through the tool's exception handler: a status
  comes back as it is, with no error added. Every earlier reply was a status that was not
  terminal. When no reply within the first \<open>max_attempts\<close> is terminal, all
  \<open>max_attempts\<close> polls are issued, and the result is still the last status.
\<close>

theorem wait_for_video_bounded:
  assumes "1 \<le> max_attempts"
      and "get_api_client st = (Inr c, st1)"
      and "wait_for_video_completion B = spec_wait_for_video_completion remote"
  shows
   "1 \<le> polls_issued remote vid max_attempts \<and>
    int (polls_issued remote vid max_attempts) \<le> max_attempts \<and>
    wait_for_video B vid max_attempts delay_seconds st =
      (try_except (remote vid (polls_issued remote vid max_attempts - 1))
         MCPVideoStatusResponse_error, st1) \<and>
    (\<forall>s. remote vid (polls_issued remote vid max_attempts - 1) = Inr s \<longrightarrow>
         wait_for_video B vid max_attempts delay_seconds st = (Inr s, st1)) \<and>
    (\<forall>j. j < polls_issued remote vid max_attempts - 1 \<longrightarrow>
         (\<exists>s. remote vid j = Inr s \<and> \<not> terminal s)) \<and>
    ((\<forall>j. int j < max_attempts \<longrightarrow> (\<exists>s. remote vid j = Inr s \<and> \<not> terminal s)) \<longrightarrow>
       int (polls_issued remote vid max_attempts) = max_attempts)"
proof -
  let ?n = "polls_issued remote vid max_attempts"
  have pos: "0 < nat max_attempts"
    using assms(1) by simp
  have lower: "1 \<le> ?n"
    using poll_until_lower [OF pos, of 0 "remote vid"] by (simp add: polls_issued_def)
  have upper: "int ?n \<le> max_attempts"
    using poll_until_upper [of "remote vid" 0 "nat max_attempts"] assms(1)
    by (simp add: polls_issued_def)
  have last: "spec_wait_for_video_completion remote c vid max_attempts delay_seconds
                = remote vid (?n - 1)"
    using poll_until_last [OF pos, of "remote vid" 0]
    by (simp add: spec_wait_for_video_completion_def polls_issued_def)
  have run: "wait_for_video B vid max_attempts delay_seconds st =
               (try_except (remote vid (?n - 1)) MCPVideoStatusResponse_error, st1)"
    using assms(2,3) last by (simp add: wait_for_video_def with_client_def call_client_def)
  have ok: "\<forall>s. remote vid (?n - 1) = Inr s \<longrightarrow>
              wait_for_video B vid max_attempts delay_seconds st = (Inr s, st1)"
    using run by (simp add: try_except_Inr)
  have earlier: "\<forall>j. j < ?n - 1 \<longrightarrow> (\<exists>s. remote vid j = Inr s \<and> \<not> terminal s)"
    using poll_until_earlier [of 0 _ "remote vid" "nat max_attempts"]
    by (simp add: polls_issued_def)
  have exhaust: "(\<forall>j. int j < max_attempts \<longrightarrow> (\<exists>s. remote vid j = Inr s \<and> \<not> terminal s))
                   \<longrightarrow> int ?n = max_attempts"
  proof
    assume a: "\<forall>j. int j < max_attempts \<longrightarrow> (\<exists>s. remote vid j = Inr s \<and> \<not> terminal s)"
    have "\<forall>j. 0 \<le> j \<and> j < 0 + nat max_attempts \<longrightarrow> (\<exists>s. remote vid j = Inr s \<and> \<not> terminal s)"
      using a by auto
    then have "snd (poll_until (remote vid) 0 (nat max_attempts)) = 0 + nat max_attempts"
      by (rule poll_until_exhausts)
    then show "int ?n = max_attempts"
      using assms(1) by (simp add: polls_issued_def)
  qed
  from lower upper run ok earlier exhaust show ?thesis
    by blast
qed

text \<open>
  The video stays in processing; three attempts are allowed: three polls are issued and
  the processing status is the result, without an error.
\<close>

theorem wait_for_video_bounded_witness:
  "(1::int) \<le> 3 \<and>
   get_api_client ready_state = (Inr client0, ready_state) \<and>
   wait_for_video_completion (mock processing (\<lambda>p. Inr (Resource p)))
     = spec_wait_for_video_completion (\<lambda>vid i. Inr processing) \<and>
   polls_issued (\<lambda>vid i. Inr processing) ''abc123'' 3 = 3 \<and>
   wait_for_video (mock processing (\<lambda>p. Inr (Resource p))) ''abc123'' 3 10 ready_state
     = (Inr processing, ready_state) \<and>
   error processing = None"
proof -
  let ?B = "mock processing (\<lambda>p. Inr (Resource p))"
  let ?remote = "\<lambda>(vid::string) (i::nat). (Inr processing :: exn + MCPVideoStatusResponse)"
  have h1: "(1::int) \<le> 3"
    by simp
  have h2: "get_api_client ready_state = (Inr client0, ready_state)"
    by (rule get_api_client_ready)
  have h3: "wait_for_video_completion ?B = spec_wait_for_video_completion ?remote"
    by (simp add: mock_def)
  have nt: "\<not> terminal processing"
    by (simp add: terminal_def processing_def)
  note t = wait_for_video_bounded [OF h1 h2 h3, of "''abc123''" 10]
  from t nt have n: "int (polls_issued ?remote ''abc123'' 3) = 3"
    by simp
  from t have "wait_for_video ?B ''abc123'' 3 10 ready_state = (Inr processing, ready_state)"
    by (simp add: try_except_Inr)
  with h1 h2 h3 n show ?thesis
    by (simp add: processing_def)
qed

section \<open>The parent directory of a given path\<close>

lemma ancestors_self: "p \<noteq> [] \<Longrightarrow> p \<in> set (ancestors p)"
  by (induction p) auto

lemma ancestors_length: "q \<in> set (ancestors p) \<Longrightarrow> length q \<le> length p"
  by (induction p arbitrary: q) auto

lemma is_dir_makedirs: "is_dir (makedirs p f) p"
  by (cases "p = []") (simp_all add: is_dir_def makedirs_def ancestors_self)

lemma is_dir_makedirs_child:
  assumes "\<not> is_dir f q"
  shows "\<not> is_dir (makedirs (butlast q) f) q"
proof -
  from assms have ne: "q \<noteq> []" and nd: "q \<notin> dirs f"
    by (auto simp: is_dir_def)
  have "q \<notin> set (ancestors (butlast q))"
  proof
    assume "q \<in> set (ancestors (butlast q))"
    then have "length q \<le> length (butlast q)"
      by (rule ancestors_length)
    with ne show False
      by (cases q rule: rev_cases) simp_all
  qed
  with ne nd show ?thesis
    by (simp add: is_dir_def makedirs_def)
qed

text \<open>
  Claim C8. Let the client's \<^verbatim>\<open>download_video\<close> be the method the spec describes, and
  let the caller give a path whose parent directory does not exist. \<^verbatim>\<open>server.py\<close>
  hands the path to the client as it is; after the call the parent directory exists,
  whether or not the transfer succeeded, so it was made before the file was streamed.
  When the remote file arrives, the destination is not itself a directory and the
  resource object is built, the call succeeds and the file holds the bytes received.
\<close>

theorem download_video_creates_parent:
  assumes "get_api_client st = (Inr c, st1)"
      and "get_video_status B c vid = Inr s"
      and "video_url s = Some url" and "url \<noteq> []"
      and "path \<noteq> []"
      and "client_download_video B = spec_download_video http_get (cwd st)"
      and "\<not> is_dir (fs st) (butlast (os_resolve (cwd st) path))"
  shows
   "is_dir (fs (snd (download_video B now vid (Some path) st)))
      (butlast (os_resolve (cwd st) path)) \<and>
    (\<forall>content res.
       http_get url = Inr content \<and> \<not> is_dir (fs st) (os_resolve (cwd st) path) \<and>
       Resource_init B (absolute (os_resolve (cwd st) path)) = Inr res \<longrightarrow>
       fst (download_video B now vid (Some path) st) =
         Inr \<lparr>error = None, video_id = Some vid, status = Some ''downloaded'',
              video_url = Some url,
              download_path = Some (absolute (os_resolve (cwd st) path)),
              resource = Some res\<rparr> \<and>
       files (fs (snd (download_video B now vid (Some path) st)))
         (os_resolve (cwd st) path) = Some content)"
proof -
  let ?q = "os_resolve (cwd st) path"
  let ?f1 = "makedirs (butlast ?q) (fs st)"
  have fs1: "fs st1 = fs st"
    using assms(1) by (rule get_api_client_fs)
  have body_eq: "download_video_body B now vid (Some path) st =
                   fetch B c vid url path st1"
    using assms(1-5) by (simp add: download_video_body_def destination_def)
  have made: "is_dir ?f1 (butlast ?q)"
    by (rule is_dir_makedirs)
  have step: "client_download_video B c url path (fs st1) =
     (case http_get url of
        Inl e \<Rightarrow> (Inl e, ?f1)
      | Inr content \<Rightarrow>
          if is_dir ?f1 ?q
          then (Inl (os_error IsADirectoryError ''[Errno 21] Is a directory'' path), ?f1)
          else (Inr (absolute ?q), ?f1\<lparr>files := (files ?f1)(?q \<mapsto> content)\<rparr>))"
    using assms(6) fs1 by (simp add: spec_download_video_def Let_def)
  have parent: "is_dir (fs (snd (download_video B now vid (Some path) st))) (butlast ?q)"
    using made
    by (auto simp: download_video_def body_eq fetch_def step is_dir_def
        split: sum.splits prod.splits)
  have good: "fst (download_video B now vid (Some path) st) =
         Inr \<lparr>error = None, video_id = Some vid, status = Some ''downloaded'',
              video_url = Some url, download_path = Some (absolute ?q),
              resource = Some res\<rparr> \<and>
       files (fs (snd (download_video B now vid (Some path) st))) ?q = Some content"
    if "http_get url = Inr content" and "\<not> is_dir (fs st) ?q"
      and "Resource_init B (absolute ?q) = Inr res" for content res
  proof -
    from that(2) have "\<not> is_dir ?f1 ?q"
      by (rule is_dir_makedirs_child)
    with that(1,3) show ?thesis
      by (simp add: download_video_def body_eq fetch_def step try_except_Inr)
  qed
  from parent good show ?thesis
    by blast
qed

text \<open>
  The caller asks for \<^verbatim>\<open>out/clips/v.mp4\<close> below the working directory \<^verbatim>\<open>/srv\<close>, where
  neither \<^verbatim>\<open>out\<close> nor \<^verbatim>\<open>clips\<close> exists: the directory is there afterwards, and so is
  the file.
\<close>

theorem download_video_creates_parent_witness:
  "get_api_client ready_state = (Inr client0, ready_state) \<and>
   get_video_status (mock completed (\<lambda>p. Inr (Resource p))) client0 ''abc123'' = Inr completed \<and>
   client_download_video (mock completed (\<lambda>p. Inr (Resource p)))
     = spec_download_video (\<lambda>url. Inr ''mp4 bytes'') (cwd ready_state) \<and>
   os_resolve (cwd ready_state) ''out/clips/v.mp4'' = [''srv'', ''out'', ''clips'', ''v.mp4''] \<and>
   \<not> is_dir (fs ready_state) [''srv'', ''out'', ''clips''] \<and>
   is_dir (fs (snd (download_video (mock completed (\<lambda>p. Inr (Resource p))) moment ''abc123''
                      (Some ''out/clips/v.mp4'') ready_state)))
     [''srv'', ''out'', ''clips''] \<and>
   fst (download_video (mock completed (\<lambda>p. Inr (Resource p))) moment ''abc123''
          (Some ''out/clips/v.mp4'') ready_state) =
     Inr \<lparr>error = None, video_id = Some ''abc123'', status = Some ''downloaded'',
          video_url = Some ''https://x/y.mp4'',
          download_path = Some ''/srv/out/clips/v.mp4'',
          resource = Some (Resource ''/srv/out/clips/v.mp4'')\<rparr> \<and>
   files (fs (snd (download_video (mock completed (\<lambda>p. Inr (Resource p))) moment ''abc123''
                     (Some ''out/clips/v.mp4'') ready_state)))
     [''srv'', ''out'', ''clips'', ''v.mp4''] = Some ''mp4 bytes''"
proof -
  let ?B = "mock completed (\<lambda>p. Inr (Resource p))"
  let ?get = "\<lambda>url::string. (Inr ''mp4 bytes'' :: exn + string)"
  have h1: "get_api_client ready_state = (Inr client0, ready_state)"
    by (rule get_api_client_ready)
  have h2: "get_video_status ?B client0 ''abc123'' = Inr completed"
    by (simp add: mock_def)
  have h3: "video_url completed = Some ''https://x/y.mp4''"
    by (simp add: completed_def)
  have h4: "''https://x/y.mp4'' \<noteq> []"
    by simp
  have h5: "''out/clips/v.mp4'' \<noteq> []"
    by simp
  have h6: "client_download_video ?B = spec_download_video ?get (cwd ready_state)"
    by (simp add: mock_def cwd_ready_state)
  have q: "os_resolve (cwd ready_state) ''out/clips/v.mp4'' = [''srv'', ''out'', ''clips'', ''v.mp4'']"
    by (simp add: cwd_ready_state os_resolve_def)
  have nd: "\<not> is_dir (fs ready_state) [''srv'', ''out'', ''clips'']"
    by (simp add: fs_ready_state is_dir_def disk0_def)
  have h7: "\<not> is_dir (fs ready_state) (butlast (os_resolve (cwd ready_state) ''out/clips/v.mp4''))"
    using nd by (simp add: q)
  have nq: "\<not> is_dir (fs ready_state) (os_resolve (cwd ready_state) ''out/clips/v.mp4'')"
    by (simp add: q fs_ready_state is_dir_def disk0_def)
  have a: "absolute [''srv'', ''out'', ''clips'', ''v.mp4''] = ''/srv/out/clips/v.mp4''"
    by (simp add: absolute_def)
  have r: "Resource_init ?B (absolute (os_resolve (cwd ready_state) ''out/clips/v.mp4''))
             = Inr (Resource ''/srv/out/clips/v.mp4'')"
    by (simp add: q a mock_def)
  note t = download_video_creates_parent [OF h1 h2 h3 h4 h5 h6 h7, of moment]
  from t have p1: "is_dir (fs (snd (download_video ?B moment ''abc123''
                      (Some ''out/clips/v.mp4'') ready_state))) [''srv'', ''out'', ''clips'']"
    by (simp add: q)
  from t nq r have p2: "fst (download_video ?B moment ''abc123''
          (Some ''out/clips/v.mp4'') ready_state) =
     Inr \<lparr>error = None, video_id = Some ''abc123'', status = Some ''downloaded'',
          video_url = Some ''https://x/y.mp4'',
          download_path = Some ''/srv/out/clips/v.mp4'',
          resource = Some (Resource ''/srv/out/clips/v.mp4'')\<rparr> \<and>
     files (fs (snd (download_video ?B moment ''abc123''
                     (Some ''out/clips/v.mp4'') ready_state)))
       [''srv'', ''out'', ''clips'', ''v.mp4''] = Some ''mp4 bytes''"
    by (simp add: q a)
  from h1 h2 h6 q nd p1 p2 show ?thesis
    by simp
qed

section \<open>The default destination\<close>



























end
